theory Spec2Isabelle
  imports Complex_Main
begin

section \<open>Values, errors and arithmetic\<close>

text \<open>
  The module \<^verbatim>\<open>frasco_eu_vat.py\<close> is glue over three remote services and two
  process-wide dictionaries. Every exception the module can raise by itself is a
  constructor of \<open>error\<close>: the \<^verbatim>\<open>ServiceError(message, status)\<close> it raises on purpose,
  and the run-time errors of the interpreter for a missing dictionary key, an unbound
  local variable, a zero divisor and an operand of the wrong type. The last three are
  what reading the feed can raise besides a key error: the request fails, the document
  does not parse, a rate is not a number.
\<close>

datatype error =
    ServiceError string nat
  | KeyError string
  | UnboundLocalError string
  | ZeroDivisionError
  | TypeError
  | RequestException
  | ParseError
  | ValueError

text \<open>
  Floating point numbers are finite rationals here (every finite float is one); the
  operations on them are not interpreted. The record \<open>arith\<close> holds the four operations
  the module uses, \<^verbatim>\<open>+\<close>, \<^verbatim>\<open>*\<close>, \<^verbatim>\<open>/\<close> and \<^verbatim>\<open>round(x, n)\<close>, and every function that
  computes takes it as a parameter, so that a theorem holds for whatever rounding the
  interpreter performs. The test for a zero divisor and the truth value of a number are
  on the value itself. Infinities and NaN are not represented. Two arithmetics to
  evaluate with, an exact one and double precision, are defined at the end.
\<close>

record arith =
  fl_add :: "rat \<Rightarrow> rat \<Rightarrow> rat"
  fl_mul :: "rat \<Rightarrow> rat \<Rightarrow> rat"
  fl_div :: "rat \<Rightarrow> rat \<Rightarrow> rat"
  fl_round :: "rat \<Rightarrow> int \<Rightarrow> rat"

text \<open>
  The second argument of \<^verbatim>\<open>should_charge_vat\<close> is used for its truth value only, and
  the callers pass \<^verbatim>\<open>None\<close>, a string or a boolean.
\<close>

datatype pyval = PyNone | PyStr string | PyBool bool

fun truthy :: "pyval \<Rightarrow> bool" where
  "truthy PyNone = False"
| "truthy (PyStr s) = (s \<noteq> [])"
| "truthy (PyBool b) = b"

text \<open>\<^verbatim>\<open>str.upper()\<close> and \<^verbatim>\<open>str.lower()\<close> on byte strings: only the ASCII letters change.\<close>

definition upper_char :: "char \<Rightarrow> char" where
  "upper_char c =
     (case map_of (zip ''abcdefghijklmnopqrstuvwxyz'' ''ABCDEFGHIJKLMNOPQRSTUVWXYZ'') c of
        Some u \<Rightarrow> u
      | None \<Rightarrow> c)"

definition lower_char :: "char \<Rightarrow> char" where
  "lower_char c =
     (case map_of (zip ''ABCDEFGHIJKLMNOPQRSTUVWXYZ'' ''abcdefghijklmnopqrstuvwxyz'') c of
        Some l \<Rightarrow> l
      | None \<Rightarrow> c)"

definition str_upper :: "string \<Rightarrow> string" where
  "str_upper s = map upper_char s"

definition str_lower :: "string \<Rightarrow> string" where
  "str_lower s = map lower_char s"

section \<open>The country table\<close>

definition EU_COUNTRIES_items :: "(string \<times> string) list" where
  "EU_COUNTRIES_items =
     [(''AT'', ''EUR''), (''BE'', ''EUR''), (''BG'', ''BGN''), (''DE'', ''EUR''),
      (''CY'', ''EUR''), (''CZ'', ''CZK''), (''DK'', ''DKK''), (''EE'', ''EUR''),
      (''ES'', ''EUR''), (''FI'', ''EUR''), (''FR'', ''EUR''), (''GB'', ''GBP''),
      (''GR'', ''EUR''), (''HR'', ''HRK''), (''HU'', ''HUF''), (''IE'', ''EUR''),
      (''IT'', ''EUR''), (''LT'', ''EUR''), (''LV'', ''EUR''), (''LU'', ''EUR''),
      (''MT'', ''EUR''), (''NL'', ''EUR''), (''PL'', ''PLN''), (''PT'', ''EUR''),
      (''RO'', ''RON''), (''SE'', ''SEK''), (''SI'', ''EUR''), (''SK'', ''EUR'')]"

definition EU_COUNTRIES :: "string \<rightharpoonup> string" where
  "EU_COUNTRIES = map_of EU_COUNTRIES_items"

text \<open>
  \<^verbatim>\<open>return country_code and country_code.upper() in EU_COUNTRIES\<close>: for the empty string
  the source returns the string itself, which is false as a condition; the model returns
  the truth value.
\<close>

definition is_eu_country :: "string \<Rightarrow> bool" where
  "is_eu_country country_code \<longleftrightarrow>
     country_code \<noteq> [] \<and> EU_COUNTRIES (str_upper country_code) \<noteq> None"

section \<open>The process state and the world outside\<close>

text \<open>
  What lines 60 to 64 of \<^verbatim>\<open>fetch_exchange_rates\<close> make of the feed: they raise
  (\<^verbatim>\<open>requests.get\<close>, \<^verbatim>\<open>ET.fromstring\<close>, \<^verbatim>\<open>cube.attrib[...]\<close> or \<^verbatim>\<open>float\<close> does), or they
  read the cubes of the document, each a currency and its rate, in document order.
\<close>

datatype ecb_reply = EcbRaises error | EcbCubes "(string \<times> rat) list"

text \<open>
  The two module-level dictionaries are the state of the process. \<open>net_log\<close> is not in
  the source: it records each request sent to a remote service, in order, so that
  "no network call" can be stated; a request for the feed is recorded with the date and
  with what came of it. Dates are day numbers.
\<close>

datatype net_call =
    EcbGet nat ecb_reply
  | TicGetRates string nat
  | ViesCheckVat string string

record state =
  exchange_rates_cache :: "nat \<rightharpoonup> (string \<rightharpoonup> rat)"
  vat_rates_cache :: "string \<rightharpoonup> (string \<rightharpoonup> rat)"
  net_log :: "net_call list"

definition init_state :: state where
  "init_state = \<lparr>exchange_rates_cache = Map.empty, vat_rates_cache = Map.empty, net_log = []\<rparr>"

text \<open>
  What a call reads from outside the module: the clock, the replies of the three remote
  services, and the options of the feature. Reading the feed delivers its cubes or
  raises. A SOAP call either delivers its reply or raises \<^verbatim>\<open>WebFault\<close>, the one
  exception the source catches; other failures of a SOAP call are not part of this
  model.
\<close>

datatype tic_reply = TicFault | TicRates "(string \<times> rat) list"

datatype vies_reply = ViesFault | ViesValid bool

record world =
  today :: nat
  ecb_feed :: ecb_reply
  tic_getRates :: "string \<Rightarrow> nat \<Rightarrow> tic_reply"
  vies_checkVat :: "string \<Rightarrow> string \<Rightarrow> vies_reply"
  own_country :: "string option"
  opt_vat_rate :: string

section \<open>The exchange rate fetcher\<close>

text \<open>
  \<^verbatim>\<open>rates = {'EUR': 1.0}\<close>, then one assignment \<^verbatim>\<open>rates[currency] = float(rate)\<close> for each
  cube of the feed, in document order.
\<close>

definition parse_cubes :: "(string \<times> rat) list \<Rightarrow> (string \<rightharpoonup> rat)" where
  "parse_cubes cubes = fold (\<lambda>(currency, rate) rates. rates(currency \<mapsto> rate)) cubes [''EUR'' \<mapsto> 1]"

text \<open>
  On a cache miss the request is sent. When reading the feed raises, the exception
  leaves the function before line 65 and nothing is stored; otherwise the snapshot is
  stored under today's date and returned.
\<close>

definition fetch_exchange_rates ::
  "world \<Rightarrow> state \<Rightarrow> (error + (string \<rightharpoonup> rat)) \<times> state" where
  "fetch_exchange_rates w st =
     (case exchange_rates_cache st (today w) of
        Some rates \<Rightarrow> (Inr rates, st)
      | None \<Rightarrow>
          (case ecb_feed w of
             EcbRaises e \<Rightarrow>
               (Inl e, st\<lparr>net_log := net_log st @ [EcbGet (today w) (EcbRaises e)]\<rparr>)
           | EcbCubes cubes \<Rightarrow>
               (let rates = parse_cubes cubes
                in (Inr rates,
                    st\<lparr>exchange_rates_cache := (exchange_rates_cache st)(today w \<mapsto> rates),
                       net_log := net_log st @ [EcbGet (today w) (EcbCubes cubes)]\<rparr>))))"

section \<open>The service\<close>

text \<open>
  The methods of \<^verbatim>\<open>EUVATService\<close>. The decorators of the host framework are taken to
  leave a direct call as it is written, and the parameters have the types the
  decorators declare: strings, and a float for the amount. An optional parameter is an
  \<open>option\<close>; the default \<^verbatim>\<open>'EUR'\<close> of \<^verbatim>\<open>src_currency\<close> is for the caller to pass. Each
  method takes the state and returns the new one with its result, also when it raises.
\<close>

definition not_eu_error :: error where
  "not_eu_error = ServiceError ''Not an EU country'' 404"

definition too_short_error :: error where
  "too_short_error = ServiceError ''VAT number too short'' 400"

definition not_listed_error :: error where
  "not_listed_error = ServiceError ''Can only use a currency listed in the ECB rates'' 400"

text \<open>
  \<^verbatim>\<open>get_vat_rate\<close>. On a cache miss the remote call is made; when it raises \<^verbatim>\<open>WebFault\<close>
  the handler is \<^verbatim>\<open>pass\<close>, the empty entry is stored, and the loop header reads the
  local \<^verbatim>\<open>r\<close>, which was never assigned.
\<close>

definition rates_entry :: "(string \<times> rat) list \<Rightarrow> (string \<rightharpoonup> rat)" where
  "rates_entry rs = fold (\<lambda>(ty, v) entry. entry(str_lower ty \<mapsto> v)) rs Map.empty"

definition get_vat_rate ::
  "world \<Rightarrow> state \<Rightarrow> string \<Rightarrow> string option \<Rightarrow> (error + rat option) \<times> state" where
  "get_vat_rate w st country_code rate_type =
     (if \<not> is_eu_country country_code then (Inl not_eu_error, st)
      else
        let rate_type' = (case rate_type of
                            None \<Rightarrow> opt_vat_rate w
                          | Some t \<Rightarrow> if t = [] then opt_vat_rate w else t)
        in case vat_rates_cache st country_code of
             Some entry \<Rightarrow> (Inr (entry (str_lower rate_type')), st)
           | None \<Rightarrow>
               (let logged = net_log st @ [TicGetRates country_code (today w)]
                in case tic_getRates w country_code (today w) of
                     TicFault \<Rightarrow>
                       (Inl (UnboundLocalError ''r''),
                        st\<lparr>vat_rates_cache := (vat_rates_cache st)(country_code \<mapsto> Map.empty),
                           net_log := logged\<rparr>)
                   | TicRates rs \<Rightarrow>
                       (Inr (rates_entry rs (str_lower rate_type')),
                        st\<lparr>vat_rates_cache := (vat_rates_cache st)(country_code \<mapsto> rates_entry rs),
                           net_log := logged\<rparr>)))"

definition validate_vat_number :: "world \<Rightarrow> state \<Rightarrow> string \<Rightarrow> (error + bool) \<times> state" where
  "validate_vat_number w st vat_number =
     (if length vat_number < 3 then (Inl too_short_error, st)
      else
        let prefix = str_upper (take 2 vat_number);
            body = drop 2 vat_number;
            st' = st\<lparr>net_log := net_log st @ [ViesCheckVat prefix body]\<rparr>
        in case vies_checkVat w prefix body of
             ViesValid valid \<Rightarrow> (Inr valid, st')
           | ViesFault \<Rightarrow> (Inr False, st'))"

text \<open>
  \<^verbatim>\<open>get_exchange_rate\<close>. The table is indexed with the code as given, the snapshot is
  fetched before the currencies are compared (an exception of the fetch leaves the
  method), and in the last line \<^verbatim>\<open>1 / rates[src]\<close> is evaluated before \<^verbatim>\<open>rates[dest]\<close>
  is read.
\<close>

definition get_exchange_rate ::
  "arith \<Rightarrow> world \<Rightarrow> state \<Rightarrow> string \<Rightarrow> string \<Rightarrow> (error + rat) \<times> state" where
  "get_exchange_rate ar w st country_code src_currency =
     (if \<not> is_eu_country country_code then (Inl not_eu_error, st)
      else case EU_COUNTRIES country_code of
        None \<Rightarrow> (Inl (KeyError country_code), st)
      | Some dest_currency \<Rightarrow>
          (case fetch_exchange_rates w st of
             (Inl e, st') \<Rightarrow> (Inl e, st')
           | (Inr rates, st') \<Rightarrow>
             if src_currency = dest_currency then (Inr 1, st')
             else if src_currency = ''EUR'' then
               (case rates dest_currency of
                  None \<Rightarrow> (Inl (KeyError dest_currency), st')
                | Some rd \<Rightarrow> (Inr rd, st'))
             else
               (case rates src_currency of
                  None \<Rightarrow> (Inl not_listed_error, st')
                | Some rs \<Rightarrow>
                    if rs = 0 then (Inl ZeroDivisionError, st')
                    else
                      (case rates dest_currency of
                         None \<Rightarrow> (Inl (KeyError dest_currency), st')
                       | Some rd \<Rightarrow>
                           (Inr (fl_round ar (fl_mul ar (fl_div ar 1 rs) rd) 5), st')))))"

text \<open>
  \<^verbatim>\<open>EUVATFeature.should_charge_vat\<close>, with the option \<^verbatim>\<open>own_country\<close> read from the world.
\<close>

definition should_charge_vat :: "world \<Rightarrow> string \<Rightarrow> pyval \<Rightarrow> bool" where
  "should_charge_vat w country_code eu_vat_number \<longleftrightarrow>
     is_eu_country country_code \<and>
     (own_country w = Some country_code \<or> \<not> truthy eu_vat_number)"

text \<open>
  The dictionary \<^verbatim>\<open>o\<close> that \<^verbatim>\<open>check\<close> returns. The four keys added by \<^verbatim>\<open>o.update\<close> are
  optional: \<open>None\<close> is an absent key.
\<close>

record check_result =
  o_country :: string
  o_currency :: string
  o_vat_rate :: "rat option"
  o_vat_number :: "string option"
  o_is_vat_number_valid :: bool
  o_should_charge_vat :: bool
  o_exchange_rate :: rat
  o_src_currency :: string
  o_amount :: "rat option"
  o_vat_amount :: "rat option"
  o_amount_with_vat :: "rat option"
  o_exchanged_amount_with_vat :: "rat option"

text \<open>\<^verbatim>\<open>vat_number and is_vat_number_valid\<close>: the first operand when it is false.\<close>

definition vat_number_and_valid :: "string option \<Rightarrow> bool \<Rightarrow> pyval" where
  "vat_number_and_valid vat_number is_vat_number_valid =
     (case vat_number of
        None \<Rightarrow> PyNone
      | Some v \<Rightarrow> if v = [] then PyStr v else PyBool is_vat_number_valid)"

text \<open>\<^verbatim>\<open>self.validate_vat_number(vat_number) if vat_number else False\<close>.\<close>

definition validate_if_given :: "world \<Rightarrow> state \<Rightarrow> string option \<Rightarrow> (error + bool) \<times> state" where
  "validate_if_given w st vat_number =
     (case vat_number of
        None \<Rightarrow> (Inr False, st)
      | Some v \<Rightarrow> if v = [] then (Inr False, st) else validate_vat_number w st v)"

text \<open>The body of \<^verbatim>\<open>if amount:\<close>, applied to the dictionary built before it.\<close>

definition add_amounts :: "arith \<Rightarrow> check_result \<Rightarrow> rat option \<Rightarrow> error + check_result" where
  "add_amounts ar o' amount =
     (case amount of
        None \<Rightarrow> Inr o'
      | Some a \<Rightarrow>
          if a = 0 then Inr o'
          else
            (case (if o_should_charge_vat o'
                   then (case o_vat_rate o' of
                           None \<Rightarrow> Inl TypeError
                         | Some v \<Rightarrow> Inr (fl_div ar v 100))
                   else Inr 0) of
               Inl e \<Rightarrow> Inl e
             | Inr rate \<Rightarrow>
                 Inr (o'\<lparr>o_amount := Some a,
                         o_vat_amount := Some (fl_round ar (fl_mul ar a rate) 2),
                         o_amount_with_vat := Some (fl_add ar a (fl_mul ar a rate)),
                         o_exchanged_amount_with_vat :=
                           Some (fl_round ar
                                   (fl_mul ar (fl_add ar a (fl_mul ar a rate)) (o_exchange_rate o'))
                                   2)\<rparr>)))"

text \<open>
  \<^verbatim>\<open>check\<close>. The values of the dictionary display are evaluated in the order they are
  written: the table lookup, then \<^verbatim>\<open>get_vat_rate\<close>, then \<^verbatim>\<open>should_charge_vat\<close>, then
  \<^verbatim>\<open>get_exchange_rate\<close>; an exception leaves the state as the calls before it made it.
\<close>

definition check ::
  "arith \<Rightarrow> world \<Rightarrow> state \<Rightarrow> string \<Rightarrow> string option \<Rightarrow> rat option \<Rightarrow> string
     \<Rightarrow> (error + check_result) \<times> state" where
  "check ar w st country_code vat_number amount src_currency =
     (if \<not> is_eu_country country_code then (Inl not_eu_error, st)
      else
        case validate_if_given w st vat_number of
          (Inl e, st1) \<Rightarrow> (Inl e, st1)
        | (Inr is_vat_number_valid, st1) \<Rightarrow>
            (case EU_COUNTRIES country_code of
               None \<Rightarrow> (Inl (KeyError country_code), st1)
             | Some currency \<Rightarrow>
                 (case get_vat_rate w st1 country_code None of
                    (Inl e, st2) \<Rightarrow> (Inl e, st2)
                  | (Inr vat_rate, st2) \<Rightarrow>
                      (case get_exchange_rate ar w st2 country_code src_currency of
                         (Inl e, st3) \<Rightarrow> (Inl e, st3)
                       | (Inr exchange_rate, st3) \<Rightarrow>
                           (add_amounts ar
                              \<lparr>o_country = country_code,
                               o_currency = currency,
                               o_vat_rate = vat_rate,
                               o_vat_number = vat_number,
                               o_is_vat_number_valid = is_vat_number_valid,
                               o_should_charge_vat =
                                 should_charge_vat w country_code
                                   (vat_number_and_valid vat_number is_vat_number_valid),
                               o_exchange_rate = exchange_rate,
                               o_src_currency = src_currency,
                               o_amount = None,
                               o_vat_amount = None,
                               o_amount_with_vat = None,
                               o_exchanged_amount_with_vat = None\<rparr>
                              amount,
                            st3)))))"

section \<open>Runs of a process\<close>

text \<open>
  A process starts in \<open>init_state\<close> and serves a sequence of calls, each in the world of
  its moment. \<open>run\<close> gives the state after such a sequence.
\<close>

datatype call =
    FetchExchangeRates
  | GetVatRate string "string option"
  | ValidateVatNumber string
  | GetExchangeRate string string
  | Check string "string option" "rat option" string

fun step :: "arith \<Rightarrow> world \<Rightarrow> call \<Rightarrow> state \<Rightarrow> state" where
  "step ar w FetchExchangeRates st = snd (fetch_exchange_rates w st)"
| "step ar w (GetVatRate c t) st = snd (get_vat_rate w st c t)"
| "step ar w (ValidateVatNumber v) st = snd (validate_vat_number w st v)"
| "step ar w (GetExchangeRate c s) st = snd (get_exchange_rate ar w st c s)"
| "step ar w (Check c v a s) st = snd (check ar w st c v a s)"

fun run :: "arith \<Rightarrow> (world \<times> call) list \<Rightarrow> state \<Rightarrow> state" where
  "run ar [] st = st"
| "run ar ((w, c) # cs) st = run ar cs (step ar w c st)"

text \<open>
  For the proofs about runs. \<open>ecb_reads log d\<close> lists the feeds that the requests of
  date \<open>d\<close> in the log have read, in order; a request that raised has read none. A call
  is \<open>quiet\<close> when it leaves the exchange rate cache as it is and reads no feed.
  \<open>snapshots_from_reads\<close> says that a date has a snapshot exactly when a feed was read on
  it, that no second feed was read on it, and that the snapshot is built from that feed.
\<close>

fun ecb_reads :: "net_call list \<Rightarrow> nat \<Rightarrow> (string \<times> rat) list list" where
  "ecb_reads [] d = []"
| "ecb_reads (EcbGet d' (EcbCubes cubes) # calls) d =
     (if d' = d then cubes # ecb_reads calls d else ecb_reads calls d)"
| "ecb_reads (c # calls) d = ecb_reads calls d"

definition quiet :: "state \<Rightarrow> state \<Rightarrow> bool" where
  "quiet st st' \<longleftrightarrow>
     exchange_rates_cache st' = exchange_rates_cache st \<and>
     (\<exists>calls. net_log st' = net_log st @ calls \<and> (\<forall>d. ecb_reads calls d = []))"

definition snapshots_from_reads :: "state \<Rightarrow> bool" where
  "snapshots_from_reads st \<longleftrightarrow>
     (\<forall>d. case ecb_reads (net_log st) d of
            [] \<Rightarrow> exchange_rates_cache st d = None
          | cubes # others \<Rightarrow>
              others = [] \<and> exchange_rates_cache st d = Some (parse_cubes cubes))"

section \<open>An exact arithmetic and sample worlds\<close>

text \<open>
  One arithmetic to compute with: exact rational operations, and rounding to the nearest
  multiple of \<open>10\<^sup>-\<^sup>n\<close>. It is used on inputs where no rounding tie occurs.
\<close>

definition exact_round :: "rat \<Rightarrow> int \<Rightarrow> rat" where
  "exact_round x n = of_int (round (x * 10 ^ nat n)) / 10 ^ nat n"

definition exact_arith :: arith where
  "exact_arith = \<lparr>fl_add = (+), fl_mul = (*), fl_div = (/), fl_round = exact_round\<rparr>"

definition sample_cubes :: "(string \<times> rat) list" where
  "sample_cubes = [(''USD'', 11 / 10), (''GBP'', 4 / 5), (''PLN'', 4)]"

definition sample_world :: world where
  "sample_world =
     \<lparr>today = 0,
      ecb_feed = EcbCubes sample_cubes,
      tic_getRates = (\<lambda>member_state request_date. TicRates [(''STANDARD'', 20), (''REDUCED'', 5)]),
      vies_checkVat = (\<lambda>prefix body. ViesValid (prefix = ''IE'')),
      own_country = Some ''FR'',
      opt_vat_rate = ''standard''\<rparr>"

definition faulty_world :: world where
  "faulty_world =
     sample_world\<lparr>tic_getRates := (\<lambda>member_state request_date. TicFault),
                  vies_checkVat := (\<lambda>prefix body. ViesFault)\<rparr>"

definition eur_listed_world :: world where
  "eur_listed_world = sample_world\<lparr>ecb_feed := EcbCubes [(''EUR'', 2)]\<rparr>"

definition offline_world :: world where
  "offline_world = sample_world\<lparr>ecb_feed := EcbRaises RequestException\<rparr>"

text \<open>Two results of \<^verbatim>\<open>check\<close> in the sample world, for the scenarios below.\<close>

definition ie_result :: check_result where
  "ie_result =
     \<lparr>o_country = ''IE'', o_currency = ''EUR'', o_vat_rate = Some 20,
      o_vat_number = Some ''IE1234'', o_is_vat_number_valid = True,
      o_should_charge_vat = False, o_exchange_rate = 1, o_src_currency = ''EUR'',
      o_amount = Some 50, o_vat_amount = Some 0, o_amount_with_vat = Some 50,
      o_exchanged_amount_with_vat = Some 50\<rparr>"

definition fr_result :: check_result where
  "fr_result =
     \<lparr>o_country = ''FR'', o_currency = ''EUR'', o_vat_rate = Some 20,
      o_vat_number = None, o_is_vat_number_valid = False,
      o_should_charge_vat = True, o_exchange_rate = 1, o_src_currency = ''EUR'',
      o_amount = Some 100, o_vat_amount = Some 20, o_amount_with_vat = Some 120,
      o_exchanged_amount_with_vat = Some 120\<rparr>"

section \<open>Double precision arithmetic\<close>

text \<open>
  A second arithmetic: IEEE 754 binary64 with rounding to nearest, ties to even, and an
  unbounded exponent range (no overflow, no subnormal numbers). \<open>rn_double x\<close> is the
  double nearest to the rational \<open>x\<close>: \<open>x\<close> is scaled by a power of two to 53 bits before
  the point, rounded to an integer and scaled back. Each operation is the exact one
  followed by this rounding, and \<^verbatim>\<open>round(x, n)\<close> is the double nearest to the decimal
  of \<open>n\<close> places nearest to \<open>x\<close>, a tie going to the even digit (older interpreters
  round a tie away from zero; the one tie met below, \<open>6.921875\<close>, goes to \<open>6.92188\<close> either
  way).
\<close>

function bit_length :: "int \<Rightarrow> int" where
  "bit_length n = (if n \<le> 0 then 0 else 1 + bit_length (n div 2))"
  by pat_completeness auto
termination
  by (relation "measure nat") auto

definition round_half_even :: "rat \<Rightarrow> int" where
  "round_half_even x =
     (let f = \<lfloor>x\<rfloor>; r = x - of_int f
      in if r < 1 / 2 then f else if 1 / 2 < r then f + 1 else if even f then f else f + 1)"

definition pow2 :: "int \<Rightarrow> rat" where
  "pow2 k = (if 0 \<le> k then 2 ^ nat k else 1 / 2 ^ nat (- k))"

definition binary_exponent :: "rat \<Rightarrow> int" where
  "binary_exponent x =
     (case quotient_of \<bar>x\<bar> of (p, q) \<Rightarrow>
        let k = bit_length p - bit_length q - 53
        in if \<bar>x\<bar> / pow2 k < 2 ^ 53 then k else k + 1)"

definition rn_double :: "rat \<Rightarrow> rat" where
  "rn_double x =
     (if x = 0 then 0
      else let e = binary_exponent x in of_int (round_half_even (x / pow2 e)) * pow2 e)"

definition double_round :: "rat \<Rightarrow> int \<Rightarrow> rat" where
  "double_round x n = rn_double (of_int (round_half_even (x * 10 ^ nat n)) / 10 ^ nat n)"

definition double_arith :: arith where
  "double_arith =
     \<lparr>fl_add = (\<lambda>a b. rn_double (a + b)),
      fl_mul = (\<lambda>a b. rn_double (a * b)),
      fl_div = (\<lambda>a b. rn_double (a / b)),
      fl_round = double_round\<rparr>"

text \<open>
  A feed with the rates \<^verbatim>\<open>0.64\<close> and \<^verbatim>\<open>4.43\<close>, as \<^verbatim>\<open>float\<close> reads them.
\<close>

definition gbp_rate :: rat where
  "gbp_rate = rn_double (64 / 100)"

definition pln_rate :: rat where
  "pln_rate = rn_double (443 / 100)"

definition double_world :: world where
  "double_world =
     sample_world\<lparr>ecb_feed := EcbCubes [(''GBP'', gbp_rate), (''PLN'', pln_rate)]\<rparr>"


section \<open>Facts about the table\<close>

lemmas table_defs =
  EU_COUNTRIES_def EU_COUNTRIES_items_def is_eu_country_def str_upper_def upper_char_def

lemma items_upper: "\<forall>(c, d) \<in> set EU_COUNTRIES_items. str_upper c = c \<and> c \<noteq> []"
  by (simp add: EU_COUNTRIES_items_def str_upper_def upper_char_def)

lemma table_key_is_eu:
  assumes "EU_COUNTRIES c = Some d"
  shows "is_eu_country c"
proof -
  from assms have "(c, d) \<in> set EU_COUNTRIES_items"
    by (simp add: EU_COUNTRIES_def map_of_SomeD)
  with items_upper have "str_upper c = c \<and> c \<noteq> []" by blast
  with assms show ?thesis by (simp add: is_eu_country_def)
qed

lemma is_eu_FR: "is_eu_country ''FR''" and FR_currency: "EU_COUNTRIES ''FR'' = Some ''EUR''"
  by (simp_all add: table_defs)

lemma is_eu_IE: "is_eu_country ''IE''" and IE_currency: "EU_COUNTRIES ''IE'' = Some ''EUR''"
  by (simp_all add: table_defs)

lemma is_eu_PL: "is_eu_country ''PL''" and PL_currency: "EU_COUNTRIES ''PL'' = Some ''PLN''"
  by (simp_all add: table_defs)

lemma is_eu_HR: "is_eu_country ''HR''" and HR_currency: "EU_COUNTRIES ''HR'' = Some ''HRK''"
  by (simp_all add: table_defs)


lemma upper_us_no_key: "EU_COUNTRIES (str_upper ''us'') = None"
  by (simp add: table_defs)

lemma not_eu_US: "\<not> is_eu_country ''US''" and not_eu_XX: "\<not> is_eu_country ''XX''"
  by (simp_all add: table_defs)

section \<open>Facts about check\<close>

lemma add_amounts_keeps:
  assumes "add_amounts ar o' amount = Inr res"
  shows "o_country res = o_country o'" and "o_currency res = o_currency o'"
    and "o_vat_rate res = o_vat_rate o'" and "o_vat_number res = o_vat_number o'"
    and "o_is_vat_number_valid res = o_is_vat_number_valid o'"
    and "o_should_charge_vat res = o_should_charge_vat o'"
    and "o_exchange_rate res = o_exchange_rate o'" and "o_src_currency res = o_src_currency o'"
  using assms
  by (auto simp: add_amounts_def split: option.splits if_splits sum.splits)

lemma check_returns:
  assumes "check ar w st cc vat amount src = (Inr res, st')"
  obtains valid st1 currency vat_rate st2 exchange_rate where
    "is_eu_country cc"
    "validate_if_given w st vat = (Inr valid, st1)"
    "EU_COUNTRIES cc = Some currency"
    "get_vat_rate w st1 cc None = (Inr vat_rate, st2)"
    "get_exchange_rate ar w st2 cc src = (Inr exchange_rate, st')"
    "add_amounts ar
       \<lparr>o_country = cc, o_currency = currency, o_vat_rate = vat_rate, o_vat_number = vat,
        o_is_vat_number_valid = valid,
        o_should_charge_vat = should_charge_vat w cc (vat_number_and_valid vat valid),
        o_exchange_rate = exchange_rate, o_src_currency = src, o_amount = None,
        o_vat_amount = None, o_amount_with_vat = None,
        o_exchanged_amount_with_vat = None\<rparr> amount = Inr res"
  using assms unfolding check_def
  by (auto split: if_splits prod.splits sum.splits option.splits)

lemma validate_if_given_valid:
  assumes "validate_if_given w st vat = (Inr valid, st1)"
  shows "truthy (vat_number_and_valid vat valid) = valid"
  using assms
  by (auto simp: validate_if_given_def vat_number_and_valid_def split: option.splits if_splits)

section \<open>Facts about the state\<close>

lemma fold_update_other:
  "k \<notin> fst ` set cubes \<Longrightarrow> fold (\<lambda>(c, r) m. m(c \<mapsto> r)) cubes m k = m k"
  by (induction cubes arbitrary: m) auto

lemma parse_cubes_EUR:
  "''EUR'' \<notin> fst ` set cubes \<Longrightarrow> parse_cubes cubes ''EUR'' = Some 1"
  by (simp add: parse_cubes_def fold_update_other)

lemma ecb_reads_append: "ecb_reads (xs @ ys) d = ecb_reads xs d @ ecb_reads ys d"
  by (induction xs d rule: ecb_reads.induct) auto

lemma quiet_refl: "quiet st st"
  by (auto simp: quiet_def intro: exI [of _ "[]"])

lemma quiet_trans:
  assumes "quiet st st1" and "quiet st1 st2"
  shows "quiet st st2"
proof -
  from assms obtain xs ys where
    "net_log st1 = net_log st @ xs" "\<forall>d. ecb_reads xs d = []"
    "net_log st2 = net_log st1 @ ys" "\<forall>d. ecb_reads ys d = []"
    by (auto simp: quiet_def)
  then have "net_log st2 = net_log st @ (xs @ ys) \<and> (\<forall>d. ecb_reads (xs @ ys) d = [])"
    by (simp add: ecb_reads_append)
  with assms show ?thesis
    unfolding quiet_def by metis
qed

lemma quiet_log:
  "\<forall>d. ecb_reads calls d = [] \<Longrightarrow> quiet st (st\<lparr>net_log := net_log st @ calls\<rparr>)"
  by (auto simp: quiet_def)

lemma quiet_vat_log:
  "\<forall>d. ecb_reads calls d = [] \<Longrightarrow>
   quiet st (st\<lparr>vat_rates_cache := vc, net_log := net_log st @ calls\<rparr>)"
  by (auto simp: quiet_def)

lemma get_vat_rate_quiet: "quiet st (snd (get_vat_rate w st cc rate_type))"
  by (simp add: get_vat_rate_def Let_def quiet_refl quiet_vat_log
      split: option.splits tic_reply.splits)

lemma validate_vat_number_quiet: "quiet st (snd (validate_vat_number w st v))"
  by (simp add: validate_vat_number_def Let_def quiet_refl quiet_log split: vies_reply.splits)

lemma validate_if_given_quiet: "quiet st (snd (validate_if_given w st vat))"
  by (simp add: validate_if_given_def quiet_refl validate_vat_number_quiet split: option.splits)

lemma get_exchange_rate_state:
  "snd (get_exchange_rate ar w st cc src) = st \<or>
   snd (get_exchange_rate ar w st cc src) = snd (fetch_exchange_rates w st)"
  by (simp add: get_exchange_rate_def split: option.splits prod.splits sum.splits)

lemma check_state:
  "\<exists>st2. quiet st st2 \<and>
     (snd (check ar w st cc vat amount src) = st2 \<or>
      snd (check ar w st cc vat amount src) = snd (fetch_exchange_rates w st2))"
proof -
  obtain r1 st1 where v: "validate_if_given w st vat = (r1, st1)"
    by (cases "validate_if_given w st vat")
  obtain r2 st2 where g: "get_vat_rate w st1 cc None = (r2, st2)"
    by (cases "get_vat_rate w st1 cc None")
  obtain r3 st3 where x: "get_exchange_rate ar w st2 cc src = (r3, st3)"
    by (cases "get_exchange_rate ar w st2 cc src")
  have q1: "quiet st st1"
    using validate_if_given_quiet [of st w vat] v by simp
  have q2: "quiet st st2"
    using get_vat_rate_quiet [of st1 w cc None] g q1 by (auto intro: quiet_trans)
  have s3: "st3 = st2 \<or> st3 = snd (fetch_exchange_rates w st2)"
    using get_exchange_rate_state [of ar w st2 cc src] x by simp
  have "snd (check ar w st cc vat amount src) \<in> {st, st1, st2, st3}"
    using v g x by (simp add: check_def split: sum.splits option.splits)
  with q1 q2 s3 quiet_refl [of st] show ?thesis by auto
qed

lemma step_state:
  "\<exists>st2. quiet st st2 \<and>
     (step ar w c st = st2 \<or> step ar w c st = snd (fetch_exchange_rates w st2))"
proof (cases c)
  case FetchExchangeRates
  then show ?thesis
    using quiet_refl [of st]
    by (intro exI [of _ st]) simp
next
  case (GetVatRate cc t)
  then show ?thesis
    using get_vat_rate_quiet [of st w cc t]
    by (intro exI [of _ "snd (get_vat_rate w st cc t)"]) simp
next
  case (ValidateVatNumber v)
  then show ?thesis
    using validate_vat_number_quiet [of st w v]
    by (intro exI [of _ "snd (validate_vat_number w st v)"]) simp
next
  case (GetExchangeRate cc s)
  then show ?thesis using get_exchange_rate_state [of ar w st cc s] quiet_refl [of st] by auto
next
  case (Check cc v a s)
  then show ?thesis using check_state [of st ar w cc v a s] by simp
qed

lemma quiet_snapshots:
  assumes "quiet st st'" and "snapshots_from_reads st"
  shows "snapshots_from_reads st'"
proof -
  from assms(1) obtain calls where
    c: "exchange_rates_cache st' = exchange_rates_cache st" and
    l: "net_log st' = net_log st @ calls" and
    n: "\<forall>d. ecb_reads calls d = []"
    by (auto simp: quiet_def)
  have e: "ecb_reads (net_log st') = ecb_reads (net_log st)"
    using l n by (auto simp: ecb_reads_append)
  from assms(2) show ?thesis
    unfolding snapshots_from_reads_def c e .
qed

lemma fetch_cases:
  obtains
    (hit) rates where "exchange_rates_cache st (today w) = Some rates"
      "fetch_exchange_rates w st = (Inr rates, st)"
  | (raises) e where "exchange_rates_cache st (today w) = None" "ecb_feed w = EcbRaises e"
      "fetch_exchange_rates w st =
         (Inl e, st\<lparr>net_log := net_log st @ [EcbGet (today w) (EcbRaises e)]\<rparr>)"
  | (reads) cubes where "exchange_rates_cache st (today w) = None" "ecb_feed w = EcbCubes cubes"
      "fetch_exchange_rates w st =
         (Inr (parse_cubes cubes),
          st\<lparr>exchange_rates_cache := (exchange_rates_cache st)(today w \<mapsto> parse_cubes cubes),
             net_log := net_log st @ [EcbGet (today w) (EcbCubes cubes)]\<rparr>)"
  by (cases "exchange_rates_cache st (today w)"; cases "ecb_feed w")
     (auto simp: fetch_exchange_rates_def Let_def)

lemma fetch_snapshots:
  assumes "snapshots_from_reads st"
  shows "snapshots_from_reads (snd (fetch_exchange_rates w st))"
proof (cases rule: fetch_cases [of st w])
  case (hit rates)
  with assms show ?thesis by simp
next
  case (raises e)
  have "quiet st (st\<lparr>net_log := net_log st @ [EcbGet (today w) (EcbRaises e)]\<rparr>)"
    by (rule quiet_log) simp
  with raises assms show ?thesis by (simp add: quiet_snapshots)
next
  case (reads cubes)
  have none: "ecb_reads (net_log st) (today w) = []"
  proof (cases "ecb_reads (net_log st) (today w)")
    case Nil
    then show ?thesis .
  next
    case (Cons cubes' others)
    with assms have "exchange_rates_cache st (today w) = Some (parse_cubes cubes')"
      unfolding snapshots_from_reads_def
      by (auto dest!: spec [of _ "today w"])
    with reads(1) show ?thesis by simp
  qed
  show ?thesis
    unfolding snapshots_from_reads_def
  proof
    fix d
    show "case ecb_reads (net_log (snd (fetch_exchange_rates w st))) d of
            [] \<Rightarrow> exchange_rates_cache (snd (fetch_exchange_rates w st)) d = None
          | cubes # others \<Rightarrow>
              others = [] \<and>
              exchange_rates_cache (snd (fetch_exchange_rates w st)) d = Some (parse_cubes cubes)"
    proof (cases "d = today w")
      case True
      with reads none show ?thesis by (simp add: ecb_reads_append split: list.splits)
    next
      case False
      with assms have "case ecb_reads (net_log st) d of
            [] \<Rightarrow> exchange_rates_cache st d = None
          | cubes # others \<Rightarrow> others = [] \<and> exchange_rates_cache st d = Some (parse_cubes cubes)"
        by (simp add: snapshots_from_reads_def)
      with reads False show ?thesis by (simp add: ecb_reads_append split: list.splits)
    qed
  qed
qed

lemma step_snapshots: "snapshots_from_reads st \<Longrightarrow> snapshots_from_reads (step ar w c st)"
  using step_state [of st ar w c] quiet_snapshots fetch_snapshots by metis

lemma run_snapshots: "snapshots_from_reads st \<Longrightarrow> snapshots_from_reads (run ar cs st)"
  by (induction cs arbitrary: st) (auto simp: step_snapshots)

lemma init_snapshots: "snapshots_from_reads init_state"
  by (simp add: snapshots_from_reads_def init_state_def)

lemma fetch_keeps_snapshot:
  "exchange_rates_cache st d = Some rates \<Longrightarrow>
   exchange_rates_cache (snd (fetch_exchange_rates w st)) d = Some rates"
  by (cases rule: fetch_cases [of st w]) auto

lemma step_keeps_snapshot:
  assumes "exchange_rates_cache st d = Some rates"
  shows "exchange_rates_cache (step ar w c st) d = Some rates"
proof -
  from step_state [of st ar w c] obtain st2 where
    q: "quiet st st2" and
    s: "step ar w c st = st2 \<or> step ar w c st = snd (fetch_exchange_rates w st2)"
    by blast
  from q assms have "exchange_rates_cache st2 d = Some rates"
    by (simp add: quiet_def)
  with s fetch_keeps_snapshot show ?thesis by metis
qed

lemma run_keeps_snapshot:
  "exchange_rates_cache st d = Some rates \<Longrightarrow>
   exchange_rates_cache (run ar cs st) d = Some rates"
  by (induction cs arbitrary: st) (auto simp: step_keeps_snapshot)

lemma fetch_stores:
  "fetch_exchange_rates w st = (Inr rates, st1) \<Longrightarrow>
   exchange_rates_cache st1 (today w) = Some rates"
  by (cases rule: fetch_cases [of st w]) auto

lemma fetch_hit:
  "exchange_rates_cache st (today w) = Some rates \<Longrightarrow>
   fetch_exchange_rates w st = (Inr rates, st)"
  by (simp add: fetch_exchange_rates_def)

section \<open>Evaluations in the sample world\<close>

lemma exact_round_vals:
  "exact_round 0 2 = 0" "exact_round 50 2 = 50" "exact_round 20 2 = 20"
  "exact_round 100 2 = 100" "exact_round 120 2 = 120" "exact_round 132 2 = 132"
  "exact_round 5 5 = 5"
  by code_simp+

lemma lower_standard: "str_lower ''standard'' = ''standard''"
  by (simp add: str_lower_def lower_char_def)

lemma sample_rates_entry:
  "rates_entry [(''STANDARD'', 20), (''REDUCED'', 5)] ''standard'' = Some 20"
  by (simp add: rates_entry_def str_lower_def lower_char_def)

lemma upper_ie: "str_upper ''ie'' = ''IE''" and upper_XX: "str_upper ''XX'' = ''XX''"
  by (simp_all add: str_upper_def upper_char_def)

lemmas eval_defs =
  check_def validate_if_given_def validate_vat_number_def get_vat_rate_def
  get_exchange_rate_def fetch_exchange_rates_def parse_cubes_def should_charge_vat_def
  vat_number_and_valid_def add_amounts_def sample_world_def init_state_def exact_arith_def
  Let_def

lemma upper_IE: "str_upper ''IE'' = ''IE''"
  by (simp add: str_upper_def upper_char_def)

lemma check_IE_sample:
  "fst (check exact_arith sample_world init_state ''IE'' (Some ''IE1234'') (Some 50) ''EUR'') =
     Inr ie_result"
  by (simp add: eval_defs is_eu_IE IE_currency upper_IE sample_rates_entry lower_standard
        exact_round_vals ie_result_def)

lemma check_FR_sample:
  "fst (check exact_arith sample_world init_state ''FR'' None (Some 100) ''EUR'') =
     Inr fr_result"
  by (simp add: eval_defs is_eu_FR FR_currency sample_rates_entry lower_standard
        exact_round_vals fr_result_def)

lemma check_FR_zero:
  "fst (check exact_arith sample_world init_state ''FR'' None (Some 0) ''EUR'') =
     Inr (fr_result\<lparr>o_amount := None, o_vat_amount := None, o_amount_with_vat := None,
                     o_exchanged_amount_with_vat := None\<rparr>)"
  by (simp add: eval_defs is_eu_FR FR_currency sample_rates_entry lower_standard
        exact_round_vals fr_result_def)

lemma fetch_sample:
  "fetch_exchange_rates sample_world init_state =
     (Inr (parse_cubes sample_cubes), snd (fetch_exchange_rates sample_world init_state))"
  by (simp add: fetch_exchange_rates_def sample_world_def init_state_def Let_def)

lemma fetch_sample_fst:
  "fst (fetch_exchange_rates sample_world init_state) = Inr (parse_cubes sample_cubes)"
  by (simp add: fetch_exchange_rates_def sample_world_def init_state_def Let_def)

lemma sample_snapshot:
  "parse_cubes sample_cubes ''GBP'' = Some (4 / 5)"
  "parse_cubes sample_cubes ''PLN'' = Some 4"
  "parse_cubes sample_cubes ''USD'' = Some (11 / 10)"
  "parse_cubes sample_cubes ''HRK'' = None"
  "parse_cubes sample_cubes ''XYZ'' = None"
  by (simp_all add: parse_cubes_def sample_cubes_def)

section \<open>Evaluations in double precision\<close>

lemma double_rates:
  "gbp_rate = 5764607523034235 / 9007199254740992"
  "pln_rate = 623467073414103 / 140737488355328"
  "gbp_rate \<noteq> 0"
  by code_simp+

lemma double_cross_rates:
  "double_round (rn_double (rn_double (1 / gbp_rate) * pln_rate)) 5 = rn_double (692188 / 100000)"
  "double_round (rn_double (pln_rate / gbp_rate)) 5 = rn_double (692187 / 100000)"
  "rn_double (692188 / 100000) \<noteq> rn_double (692187 / 100000)"
  by code_simp+

lemma double_world_rate:
  "fst (get_exchange_rate double_arith double_world init_state ''PL'' ''GBP'') =
     Inr (double_round (rn_double (rn_double (1 / gbp_rate) * pln_rate)) 5)"
  using is_eu_PL PL_currency double_rates(3)
  by (simp add: get_exchange_rate_def fetch_exchange_rates_def parse_cubes_def double_world_def
      sample_world_def init_state_def double_arith_def Let_def)


section \<open>The charging policy\<close>

text \<open>
  C1. \<^verbatim>\<open>should_charge_vat\<close> is true exactly when the country is an EU country and
  either the configured own country is this country code or the VAT number argument is
  false as a condition. So it is true for a buyer of the own country even with a
  validated number, and false for a buyer of another country with a validated number.
  In the result of \<^verbatim>\<open>check\<close> the argument is the validated number: the field
  \<^verbatim>\<open>should_charge_vat\<close> is true exactly when the own country is this country or the
  field \<^verbatim>\<open>is_vat_number_valid\<close> is false.
\<close>

theorem should_charge_vat_policy:
  "(should_charge_vat w cc v \<longleftrightarrow>
      is_eu_country cc \<and> (own_country w = Some cc \<or> \<not> truthy v)) \<and>
   (is_eu_country cc \<and> own_country w = Some cc \<longrightarrow> should_charge_vat w cc (PyBool True)) \<and>
   (own_country w \<noteq> Some cc \<longrightarrow> \<not> should_charge_vat w cc (PyBool True)) \<and>
   (check ar w st cc vat amount src = (Inr res, st') \<longrightarrow>
      (o_should_charge_vat res \<longleftrightarrow>
         is_eu_country cc \<and> (own_country w = Some cc \<or> \<not> o_is_vat_number_valid res)))"
proof -
  have "o_should_charge_vat res \<longleftrightarrow>
          is_eu_country cc \<and> (own_country w = Some cc \<or> \<not> o_is_vat_number_valid res)"
    if ret: "check ar w st cc vat amount src = (Inr res, st')"
  proof -
    from ret obtain valid st1 currency vat_rate st2 exchange_rate where
      v: "validate_if_given w st vat = (Inr valid, st1)" and
      a: "add_amounts ar
       \<lparr>o_country = cc, o_currency = currency, o_vat_rate = vat_rate, o_vat_number = vat,
        o_is_vat_number_valid = valid,
        o_should_charge_vat = should_charge_vat w cc (vat_number_and_valid vat valid),
        o_exchange_rate = exchange_rate, o_src_currency = src, o_amount = None,
        o_vat_amount = None, o_amount_with_vat = None,
        o_exchanged_amount_with_vat = None\<rparr> amount = Inr res"
      by (rule check_returns)
    from add_amounts_keeps(5,6)[OF a] validate_if_given_valid[OF v]
    show ?thesis by (simp add: should_charge_vat_def)
  qed
  then show ?thesis by (simp add: should_charge_vat_def)
qed

theorem should_charge_vat_policy_witness:
  "is_eu_country ''FR'' \<and> own_country sample_world = Some ''FR'' \<and>
   should_charge_vat sample_world ''FR'' (PyBool True) \<and>
   own_country sample_world \<noteq> Some ''IE'' \<and>
   \<not> should_charge_vat sample_world ''IE'' (PyBool True) \<and>
   check exact_arith sample_world init_state ''IE'' (Some ''IE1234'') (Some 50) ''EUR'' =
     (Inr ie_result,
      snd (check exact_arith sample_world init_state ''IE'' (Some ''IE1234'') (Some 50) ''EUR'')) \<and>
   \<not> o_should_charge_vat ie_result"
  using should_charge_vat_policy [where w = sample_world and cc = "''FR''"]
    should_charge_vat_policy [where w = sample_world and cc = "''IE''" and ar = exact_arith
      and st = init_state and vat = "Some ''IE1234''" and amount = "Some 50" and src = "''EUR''"
      and res = ie_result
      and st' = "snd (check exact_arith sample_world init_state ''IE'' (Some ''IE1234'') (Some 50) ''EUR'')"]
    is_eu_FR check_IE_sample
  by (simp add: prod_eq_iff sample_world_def ie_result_def)

section \<open>Codes outside the table\<close>

text \<open>
  C2, as amended. For every country code whose upper-case form is not a key of the
  country table, \<^verbatim>\<open>get_vat_rate\<close>, \<^verbatim>\<open>get_exchange_rate\<close> and \<^verbatim>\<open>check\<close> raise the
  service error "Not an EU country" with status 404, and leave the caches and the
  network untouched. (\<^verbatim>\<open>validate_vat_number\<close> takes no country code and makes no such
  test.)
\<close>

theorem non_eu_rejected:
  assumes "EU_COUNTRIES (str_upper cc) = None"
  shows "get_vat_rate w st cc rate_type = (Inl (ServiceError ''Not an EU country'' 404), st) \<and>
         get_exchange_rate ar w st cc src = (Inl (ServiceError ''Not an EU country'' 404), st) \<and>
         check ar w st cc vat amount src = (Inl (ServiceError ''Not an EU country'' 404), st)"
proof -
  from assms have "\<not> is_eu_country cc"
    by (simp add: is_eu_country_def)
  then show ?thesis
    by (simp add: get_vat_rate_def get_exchange_rate_def check_def not_eu_error_def)
qed

theorem non_eu_rejected_witness:
  "EU_COUNTRIES (str_upper ''us'') = None \<and>
   get_vat_rate sample_world init_state ''us'' None =
     (Inl (ServiceError ''Not an EU country'' 404), init_state) \<and>
   get_exchange_rate exact_arith sample_world init_state ''us'' ''EUR'' =
     (Inl (ServiceError ''Not an EU country'' 404), init_state) \<and>
   check exact_arith sample_world init_state ''us'' None (Some 100) ''EUR'' =
     (Inl (ServiceError ''Not an EU country'' 404), init_state)"
  using non_eu_rejected [OF upper_us_no_key, of sample_world init_state None exact_arith "''EUR''"
      None "Some 100"]
    upper_us_no_key
  by simp

text \<open>
  C2 as stated fails for \<^verbatim>\<open>validate_vat_number\<close>: the prefix \<^verbatim>\<open>XX\<close> is no EU country,
  and the number \<^verbatim>\<open>XX123\<close> is sent to the remote service and answered with its validity
  flag, not rejected as "Not an EU country".
\<close>

theorem validate_vat_number_no_country_test:
  "\<not> is_eu_country (take 2 ''XX123'') \<and>
   validate_vat_number sample_world init_state ''XX123'' =
     (Inr False, init_state\<lparr>net_log := [ViesCheckVat ''XX'' ''123'']\<rparr>) \<and>
   fst (validate_vat_number sample_world init_state ''XX123'') \<noteq>
     Inl (ServiceError ''Not an EU country'' 404)"
  using not_eu_XX
  by (simp add: validate_vat_number_def upper_XX sample_world_def init_state_def)

section \<open>The remote fault in the rate lookup\<close>

text \<open>
  C3. When the country is an EU country that is absent from the VAT rate cache and
  the remote rate lookup raises a fault, \<^verbatim>\<open>get_vat_rate\<close> does not return and does not
  raise a service error: the fault is swallowed, the empty entry is stored for the
  country, and the call ends with the error of an unbound local variable.
\<close>

theorem vat_rate_fault_is_unbound_local:
  assumes "is_eu_country cc"
    and "vat_rates_cache st cc = None"
    and "tic_getRates w cc (today w) = TicFault"
  shows "fst (get_vat_rate w st cc rate_type) = Inl (UnboundLocalError ''r'') \<and>
         vat_rates_cache (snd (get_vat_rate w st cc rate_type)) cc = Some Map.empty \<and>
         net_log (snd (get_vat_rate w st cc rate_type)) =
           net_log st @ [TicGetRates cc (today w)]"
  using assms
  by (simp add: get_vat_rate_def Let_def)

theorem vat_rate_fault_is_unbound_local_witness:
  "is_eu_country ''FR'' \<and> vat_rates_cache init_state ''FR'' = None \<and>
   tic_getRates faulty_world ''FR'' (today faulty_world) = TicFault \<and>
   fst (get_vat_rate faulty_world init_state ''FR'' None) = Inl (UnboundLocalError ''r'')"
  using vat_rate_fault_is_unbound_local [of "''FR''" init_state faulty_world None] is_eu_FR
  by (simp add: init_state_def faulty_world_def sample_world_def)

section \<open>The amounts\<close>

text \<open>
  C4, as amended. Whenever \<^verbatim>\<open>check\<close> returns a result for an amount that is not zero,
  the result holds the amount, \<^verbatim>\<open>vat_amount = round(amount * rate, 2)\<close>,
  \<^verbatim>\<open>amount_with_vat = amount + amount * rate\<close>, not rounded, and
  \<^verbatim>\<open>exchanged_amount_with_vat = round((amount + amount * rate) * exchange_rate, 2)\<close>,
  where \<^verbatim>\<open>rate\<close> is \<^verbatim>\<open>vat_rate / 100\<close> when \<^verbatim>\<open>should_charge_vat\<close> is true and \<open>0\<close>
  otherwise, and \<^verbatim>\<open>vat_rate\<close>, \<^verbatim>\<open>should_charge_vat\<close> and \<^verbatim>\<open>exchange_rate\<close> are the fields of
  the same result.
\<close>

theorem check_amounts:
  assumes "check ar w st cc vat (Some a) src = (Inr res, st')" and "a \<noteq> 0"
  shows "\<exists>rate.
           (if o_should_charge_vat res
            then \<exists>v. o_vat_rate res = Some v \<and> rate = fl_div ar v 100
            else rate = 0) \<and>
           o_amount res = Some a \<and>
           o_vat_amount res = Some (fl_round ar (fl_mul ar a rate) 2) \<and>
           o_amount_with_vat res = Some (fl_add ar a (fl_mul ar a rate)) \<and>
           o_exchanged_amount_with_vat res =
             Some (fl_round ar (fl_mul ar (fl_add ar a (fl_mul ar a rate)) (o_exchange_rate res)) 2)"
proof -
  from assms(1) obtain o' where a: "add_amounts ar o' (Some a) = Inr res"
    by (rule check_returns)
  show ?thesis
  proof (cases "o_should_charge_vat o'")
    case True
    with a assms(2) obtain v where "o_vat_rate o' = Some v"
      by (auto simp: add_amounts_def split: option.splits)
    with a assms(2) True show ?thesis
      by (auto simp: add_amounts_def)
  next
    case False
    with a assms(2) show ?thesis
      by (auto simp: add_amounts_def)
  qed
qed

theorem check_amounts_witness:
  "check exact_arith sample_world init_state ''FR'' None (Some 100) ''EUR'' =
     (Inr fr_result,
      snd (check exact_arith sample_world init_state ''FR'' None (Some 100) ''EUR'')) \<and>
   (100 :: rat) \<noteq> 0 \<and>
   o_should_charge_vat fr_result \<and> o_vat_rate fr_result = Some 20 \<and>
   o_vat_amount fr_result = Some (fl_round exact_arith (fl_mul exact_arith 100 (fl_div exact_arith 20 100)) 2) \<and>
   o_vat_amount fr_result = Some 20 \<and> o_amount_with_vat fr_result = Some 120"
  using check_amounts [where ar = exact_arith and w = sample_world and st = init_state
      and cc = "''FR''" and vat = None and a = 100 and src = "''EUR''" and res = fr_result
      and st' = "snd (check exact_arith sample_world init_state ''FR'' None (Some 100) ''EUR'')"]
    check_FR_sample
  by (simp add: prod_eq_iff fr_result_def exact_arith_def exact_round_vals)

text \<open>
  C4 as stated fails for the amount zero: it is supplied, it is false as a condition,
  and the result holds none of the four keys.
\<close>

theorem check_zero_amount_no_keys:
  "fst (check exact_arith sample_world init_state ''FR'' None (Some 0) ''EUR'') =
     Inr \<lparr>o_country = ''FR'', o_currency = ''EUR'', o_vat_rate = Some 20,
          o_vat_number = None, o_is_vat_number_valid = False,
          o_should_charge_vat = True, o_exchange_rate = 1, o_src_currency = ''EUR'',
          o_amount = None, o_vat_amount = None, o_amount_with_vat = None,
          o_exchanged_amount_with_vat = None\<rparr>"
  using check_FR_zero
  by (simp add: fr_result_def)

section \<open>The cross rate\<close>

text \<open>
  In the exact arithmetic the expression of the source, \<^verbatim>\<open>1 / src_rate * dest_rate\<close>, is
  the quotient \<^verbatim>\<open>dest_rate / src_rate\<close>. In double precision the two can differ in the
  last place, and then also after rounding to five places, as the evaluation further
  down shows.
\<close>

lemma exact_cross_rate:
  "fl_round exact_arith (fl_mul exact_arith (fl_div exact_arith 1 rs) rd) n =
   fl_round exact_arith (fl_div exact_arith rd rs) n"
  by (simp add: exact_arith_def)

text \<open>
  C5, as amended. For every key of the country table and every source currency that
  is neither \<^verbatim>\<open>EUR\<close> nor the currency of the country: when the source currency is absent
  from the snapshot, \<^verbatim>\<open>get_exchange_rate\<close> raises the service error "Can only use a
  currency listed in the ECB rates", status 400; when it is present with a rate that is
  not zero and the currency of the country is present too, the result is
  \<^verbatim>\<open>round(1 / src_rate * dest_rate, 5)\<close>.
\<close>

theorem cross_rate_via_eur:
  assumes "EU_COUNTRIES cc = Some dest"
    and "src \<noteq> ''EUR''" and "src \<noteq> dest"
    and "fetch_exchange_rates w st = (Inr rates, st')"
  shows "(rates src = None \<longrightarrow>
            get_exchange_rate ar w st cc src =
              (Inl (ServiceError ''Can only use a currency listed in the ECB rates'' 400), st')) \<and>
         (rates src = Some rs \<and> rs \<noteq> 0 \<and> rates dest = Some rd \<longrightarrow>
            get_exchange_rate ar w st cc src =
              (Inr (fl_round ar (fl_mul ar (fl_div ar 1 rs) rd) 5), st'))"
  using assms table_key_is_eu [OF assms(1)]
  by (simp add: get_exchange_rate_def not_listed_error_def)

theorem cross_rate_via_eur_witness:
  "EU_COUNTRIES ''PL'' = Some ''PLN'' \<and> ''GBP'' \<noteq> ''EUR'' \<and> ''GBP'' \<noteq> ''PLN'' \<and>
   fetch_exchange_rates sample_world init_state =
     (Inr (parse_cubes sample_cubes), snd (fetch_exchange_rates sample_world init_state)) \<and>
   parse_cubes sample_cubes ''GBP'' = Some (4 / 5) \<and>
   (4 / 5 :: rat) \<noteq> 0 \<and>
   parse_cubes sample_cubes ''PLN'' = Some 4 \<and>
   fst (get_exchange_rate exact_arith sample_world init_state ''PL'' ''GBP'') = Inr 5 \<and>
   ''XYZ'' \<noteq> ''EUR'' \<and> ''XYZ'' \<noteq> ''PLN'' \<and>
   parse_cubes sample_cubes ''XYZ'' = None \<and>
   fst (get_exchange_rate exact_arith sample_world init_state ''PL'' ''XYZ'') =
     Inl (ServiceError ''Can only use a currency listed in the ECB rates'' 400)"
proof -
  have g: "''GBP'' \<noteq> ''EUR''" "''GBP'' \<noteq> ''PLN''" "''XYZ'' \<noteq> ''EUR''" "''XYZ'' \<noteq> ''PLN''"
    by simp_all
  have r: "fl_round exact_arith (fl_mul exact_arith (fl_div exact_arith 1 (4 / 5)) 4) 5 = 5"
    by (simp add: exact_arith_def exact_round_vals)
  from cross_rate_via_eur [OF PL_currency g(1) g(2) fetch_sample, where ar = exact_arith
      and rs = "4 / 5" and rd = 4]
    cross_rate_via_eur [OF PL_currency g(3) g(4) fetch_sample, where ar = exact_arith]
    sample_snapshot PL_currency r fetch_sample
  show ?thesis by simp
qed

text \<open>
  C5 as stated fails in two ways. When the currency of the country is absent from the
  snapshot the call ends with a key error: the source currency \<^verbatim>\<open>USD\<close> is present, the
  feed has no rate for \<^verbatim>\<open>HRK\<close>, and the call is for \<^verbatim>\<open>HR\<close>. And in double precision the
  result is not \<^verbatim>\<open>round(dest_rate / src_rate, 5)\<close>: with the rates \<^verbatim>\<open>0.64\<close> and \<^verbatim>\<open>4.43\<close>
  the source returns \<^verbatim>\<open>6.92188\<close>, and the quotient rounds to \<^verbatim>\<open>6.92187\<close>.
\<close>

theorem cross_rate_as_stated_fails:
  "EU_COUNTRIES ''HR'' = Some ''HRK'' \<and>
   fst (fetch_exchange_rates sample_world init_state) = Inr (parse_cubes sample_cubes) \<and>
   parse_cubes sample_cubes ''USD'' = Some (11 / 10) \<and>
   fst (get_exchange_rate exact_arith sample_world init_state ''HR'' ''USD'') =
     Inl (KeyError ''HRK'') \<and>
   fst (get_exchange_rate double_arith double_world init_state ''PL'' ''GBP'') =
     Inr (rn_double (692188 / 100000)) \<and>
   fl_round double_arith (fl_div double_arith pln_rate gbp_rate) 5 =
     rn_double (692187 / 100000) \<and>
   rn_double (692188 / 100000) \<noteq> rn_double (692187 / 100000)"
proof -
  obtain st' where "fetch_exchange_rates sample_world init_state =
      (Inr (parse_cubes sample_cubes), st')"
    using fetch_sample by blast
  then have "fst (get_exchange_rate exact_arith sample_world init_state ''HR'' ''USD'') =
          Inl (KeyError ''HRK'')"
    using HR_currency is_eu_HR sample_snapshot
    by (simp add: get_exchange_rate_def)
  moreover have "fl_round double_arith (fl_div double_arith pln_rate gbp_rate) 5 =
          rn_double (692187 / 100000)"
    using double_cross_rates(2) by (simp add: double_arith_def)
  ultimately show ?thesis
    using HR_currency sample_snapshot(3) fetch_sample_fst double_world_rate
      double_cross_rates(1,3)
    by simp
qed

section \<open>The exchange rate of a currency to itself\<close>

text \<open>
  C6, as amended. For every key of the country table, \<^verbatim>\<open>get_exchange_rate\<close> with the
  currency of that country as the source returns \<open>1\<close>, whatever the rates of the
  snapshot and the arithmetic are, when the fetch that comes before the comparison
  succeeds: today's snapshot is cached, or the feed is read without an exception. When
  nothing is cached and reading the feed raises, the exception leaves the call and
  nothing is returned.
\<close>

theorem same_currency_rate_is_one:
  assumes "EU_COUNTRIES cc = Some dest"
  shows "(exchange_rates_cache st (today w) = Some snapshot \<or> ecb_feed w = EcbCubes cubes \<longrightarrow>
            fst (get_exchange_rate ar w st cc dest) = Inr 1) \<and>
         (exchange_rates_cache st (today w) = None \<and> ecb_feed w = EcbRaises e \<longrightarrow>
            fst (get_exchange_rate ar w st cc dest) = Inl e)"
proof -
  have eu: "is_eu_country cc"
    using assms by (rule table_key_is_eu)
  show ?thesis
  proof (cases rule: fetch_cases [of st w])
    case (hit rates)
    with assms eu show ?thesis by (simp add: get_exchange_rate_def)
  next
    case (raises e')
    with assms eu show ?thesis by (simp add: get_exchange_rate_def)
  next
    case (reads cubes')
    with assms eu show ?thesis by (simp add: get_exchange_rate_def)
  qed
qed

theorem same_currency_rate_is_one_witness:
  "EU_COUNTRIES ''PL'' = Some ''PLN'' \<and>
   ecb_feed eur_listed_world = EcbCubes [(''EUR'', 2)] \<and>
   fst (get_exchange_rate exact_arith eur_listed_world init_state ''PL'' ''PLN'') = Inr 1 \<and>
   exchange_rates_cache init_state (today offline_world) = None \<and>
   ecb_feed offline_world = EcbRaises RequestException \<and>
   fst (get_exchange_rate exact_arith offline_world init_state ''PL'' ''PLN'') =
     Inl RequestException"
  using same_currency_rate_is_one [OF PL_currency, where ar = exact_arith and w = eur_listed_world
      and st = init_state and cubes = "[(''EUR'', 2)]"]
    same_currency_rate_is_one [OF PL_currency, where ar = exact_arith and w = offline_world
      and st = init_state and e = RequestException]
    PL_currency
  by (simp add: eur_listed_world_def offline_world_def sample_world_def init_state_def)

text \<open>
  C6 as stated fails when the feed cannot be read: the snapshot is fetched before the
  currencies are compared, so the call for \<^verbatim>\<open>PL\<close> with the source \<^verbatim>\<open>PLN\<close> ends with the
  exception of the request and returns nothing.
\<close>

theorem same_currency_fetch_raises:
  "EU_COUNTRIES ''PL'' = Some ''PLN'' \<and>
   get_exchange_rate exact_arith offline_world init_state ''PL'' ''PLN'' =
     (Inl RequestException, init_state\<lparr>net_log := [EcbGet 0 (EcbRaises RequestException)]\<rparr>) \<and>
   fst (get_exchange_rate exact_arith offline_world init_state ''PL'' ''PLN'') \<noteq> Inr 1"
  using PL_currency is_eu_PL
  by (simp add: get_exchange_rate_def fetch_exchange_rates_def offline_world_def
      sample_world_def init_state_def)

section \<open>One fetch per day\<close>

text \<open>
  C7, as amended. In a process that has served any sequence of calls, at most one feed
  was read into a snapshot for each date. When \<^verbatim>\<open>fetch_exchange_rates\<close> has returned a
  snapshot on some date, every later call on that date, after any calls in between and
  whatever the feed then is, returns the same snapshot and leaves the state as it is:
  it sends no request. The snapshot is built from the one feed read on that date, and
  it maps \<^verbatim>\<open>EUR\<close> to \<open>1\<close> when that feed lists no rate for \<^verbatim>\<open>EUR\<close> itself. A call whose
  reading of the feed raises stores nothing, so that the next call on that date sends
  the request again.
\<close>

theorem exchange_rates_fetched_once_per_day:
  "(\<forall>d. length (ecb_reads (net_log (run ar cs init_state)) d) \<le> 1) \<and>
   (fetch_exchange_rates w (run ar cs init_state) = (Inr rates, st_after) \<and>
    today w_later = today w \<longrightarrow>
      fetch_exchange_rates w_later (run ar cs_later st_after) =
        (Inr rates, run ar cs_later st_after)) \<and>
   (fetch_exchange_rates w (run ar cs init_state) = (Inr rates, st_after) \<longrightarrow>
      (\<exists>cubes. ecb_reads (net_log st_after) (today w) = [cubes] \<and>
         rates = parse_cubes cubes \<and>
         (''EUR'' \<notin> fst ` set cubes \<longrightarrow> rates ''EUR'' = Some 1))) \<and>
   (fetch_exchange_rates w (run ar cs init_state) = (Inl e, st_after) \<longrightarrow>
      exchange_rates_cache st_after (today w) = None \<and>
      net_log st_after =
        net_log (run ar cs init_state) @ [EcbGet (today w) (EcbRaises e)])"
proof (intro conjI allI impI)
  fix d
  have "snapshots_from_reads (run ar cs init_state)"
    by (rule run_snapshots [OF init_snapshots])
  then have "case ecb_reads (net_log (run ar cs init_state)) d of
      [] \<Rightarrow> True | cubes # others \<Rightarrow> others = []"
    unfolding snapshots_from_reads_def
    by (auto split: list.splits dest!: spec [of _ d])
  then show "length (ecb_reads (net_log (run ar cs init_state)) d) \<le> 1"
    by (cases "ecb_reads (net_log (run ar cs init_state)) d") simp_all
next
  assume h: "fetch_exchange_rates w (run ar cs init_state) = (Inr rates, st_after) \<and>
    today w_later = today w"
  then have "exchange_rates_cache st_after (today w_later) = Some rates"
    using fetch_stores by metis
  then have "exchange_rates_cache (run ar cs_later st_after) (today w_later) = Some rates"
    by (rule run_keeps_snapshot)
  then show "fetch_exchange_rates w_later (run ar cs_later st_after) =
      (Inr rates, run ar cs_later st_after)"
    by (rule fetch_hit)
next
  assume h: "fetch_exchange_rates w (run ar cs init_state) = (Inr rates, st_after)"
  have "snapshots_from_reads (snd (fetch_exchange_rates w (run ar cs init_state)))"
    by (rule fetch_snapshots [OF run_snapshots [OF init_snapshots]])
  with h have inv: "snapshots_from_reads st_after" by simp
  from h have stored: "exchange_rates_cache st_after (today w) = Some rates"
    by (rule fetch_stores)
  from inv have at_date: "case ecb_reads (net_log st_after) (today w) of
      [] \<Rightarrow> exchange_rates_cache st_after (today w) = None
    | cubes # others \<Rightarrow>
        others = [] \<and> exchange_rates_cache st_after (today w) = Some (parse_cubes cubes)"
    by (simp add: snapshots_from_reads_def)
  have "\<exists>cubes. ecb_reads (net_log st_after) (today w) = [cubes] \<and> rates = parse_cubes cubes"
  proof (cases "ecb_reads (net_log st_after) (today w)")
    case Nil
    with at_date stored show ?thesis by simp
  next
    case (Cons cubes others)
    with at_date stored show ?thesis by simp
  qed
  then show "\<exists>cubes. ecb_reads (net_log st_after) (today w) = [cubes] \<and>
         rates = parse_cubes cubes \<and>
         (''EUR'' \<notin> fst ` set cubes \<longrightarrow> rates ''EUR'' = Some 1)"
    using parse_cubes_EUR by blast
next
  assume h: "fetch_exchange_rates w (run ar cs init_state) = (Inl e, st_after)"
  then show "exchange_rates_cache st_after (today w) = None"
    by (cases rule: fetch_cases [of "run ar cs init_state" w]) auto
next
  assume h: "fetch_exchange_rates w (run ar cs init_state) = (Inl e, st_after)"
  then show "net_log st_after =
      net_log (run ar cs init_state) @ [EcbGet (today w) (EcbRaises e)]"
    by (cases rule: fetch_cases [of "run ar cs init_state" w]) auto
qed

theorem exchange_rates_fetched_once_per_day_witness:
  "length (ecb_reads (net_log (run exact_arith [] init_state)) 0) \<le> 1 \<and>
   fetch_exchange_rates sample_world (run exact_arith [] init_state) =
     (Inr (parse_cubes sample_cubes), snd (fetch_exchange_rates sample_world init_state)) \<and>
   today eur_listed_world = today sample_world \<and>
   fetch_exchange_rates eur_listed_world
     (run exact_arith [(eur_listed_world, Check ''FR'' None (Some 100) ''EUR'')]
        (snd (fetch_exchange_rates sample_world init_state))) =
     (Inr (parse_cubes sample_cubes),
      run exact_arith [(eur_listed_world, Check ''FR'' None (Some 100) ''EUR'')]
        (snd (fetch_exchange_rates sample_world init_state))) \<and>
   ''EUR'' \<notin> fst ` set sample_cubes \<and>
   parse_cubes sample_cubes ''EUR'' = Some 1 \<and>
   fetch_exchange_rates offline_world (run exact_arith [] init_state) =
     (Inl RequestException, snd (fetch_exchange_rates offline_world init_state)) \<and>
   exchange_rates_cache (snd (fetch_exchange_rates offline_world init_state))
     (today offline_world) = None"
proof -
  have a: "fetch_exchange_rates sample_world (run exact_arith [] init_state) =
             (Inr (parse_cubes sample_cubes), snd (fetch_exchange_rates sample_world init_state))"
    using fetch_sample by simp
  have b: "today eur_listed_world = today sample_world"
    by (simp add: eur_listed_world_def)
  have c: "''EUR'' \<notin> fst ` set sample_cubes"
    by (simp add: sample_cubes_def)
  have d: "fetch_exchange_rates offline_world (run exact_arith [] init_state) =
             (Inl RequestException, snd (fetch_exchange_rates offline_world init_state))"
    by (simp add: fetch_exchange_rates_def offline_world_def sample_world_def init_state_def)
  from exchange_rates_fetched_once_per_day [where ar = exact_arith and cs = "[]"
      and w = sample_world and w_later = eur_listed_world
      and rates = "parse_cubes sample_cubes"
      and st_after = "snd (fetch_exchange_rates sample_world init_state)"
      and cs_later = "[(eur_listed_world, Check ''FR'' None (Some 100) ''EUR'')]"]
    exchange_rates_fetched_once_per_day [where ar = exact_arith and cs = "[]"
      and w = offline_world and e = RequestException
      and st_after = "snd (fetch_exchange_rates offline_world init_state)"]
    a b c d parse_cubes_EUR [OF c]
  show ?thesis by simp
qed

text \<open>
  C7 as stated fails in two ways. A feed that lists a rate for \<^verbatim>\<open>EUR\<close> overwrites the
  entry the snapshot starts with. And a second call on the same date does send a
  request when the first one could not read the feed.
\<close>

theorem fetch_as_stated_fails:
  "ecb_feed eur_listed_world = EcbCubes [(''EUR'', 2)] \<and>
   fst (fetch_exchange_rates eur_listed_world init_state) = Inr (parse_cubes [(''EUR'', 2)]) \<and>
   parse_cubes [(''EUR'', 2)] ''EUR'' = Some 2 \<and>
   parse_cubes [(''EUR'', 2)] ''EUR'' \<noteq> Some 1 \<and>
   today offline_world = 0 \<and>
   net_log (run exact_arith
              [(offline_world, FetchExchangeRates), (offline_world, FetchExchangeRates)]
              init_state) =
     [EcbGet 0 (EcbRaises RequestException), EcbGet 0 (EcbRaises RequestException)]"
  by (simp add: fetch_exchange_rates_def parse_cubes_def eur_listed_world_def offline_world_def
      sample_world_def init_state_def Let_def)

section \<open>The VAT number validator\<close>

text \<open>
  C8. Every string shorter than three characters is rejected by
  \<^verbatim>\<open>validate_vat_number\<close> with the service error "VAT number too short", status 400, and
  the state is as before: no request was sent.
\<close>

theorem short_vat_number_rejected:
  assumes "length vat_number < 3"
  shows "validate_vat_number w st vat_number =
           (Inl (ServiceError ''VAT number too short'' 400), st)"
  using assms
  by (simp add: validate_vat_number_def too_short_error_def)

theorem short_vat_number_rejected_witness:
  "length ''XX'' < 3 \<and>
   validate_vat_number sample_world init_state ''XX'' =
     (Inl (ServiceError ''VAT number too short'' 400), init_state)"
  using short_vat_number_rejected [of "''XX''" sample_world init_state]
  by simp

text \<open>
  C9. For every string of at least three characters \<^verbatim>\<open>validate_vat_number\<close> sends one
  request, for the first two characters in upper case and the rest. When the remote
  service raises a fault the result is \<^verbatim>\<open>False\<close>, and otherwise it is the validity flag
  of the reply.
\<close>

theorem validate_vat_number_fail_closed:
  assumes "3 \<le> length vat_number"
  shows "fst (validate_vat_number w st vat_number) =
           Inr (case vies_checkVat w (str_upper (take 2 vat_number)) (drop 2 vat_number) of
                  ViesFault \<Rightarrow> False
                | ViesValid valid \<Rightarrow> valid) \<and>
         net_log (snd (validate_vat_number w st vat_number)) =
           net_log st @ [ViesCheckVat (str_upper (take 2 vat_number)) (drop 2 vat_number)]"
  using assms
  by (simp add: validate_vat_number_def Let_def split: vies_reply.splits)

theorem validate_vat_number_fail_closed_witness:
  "3 \<le> length ''ie1234'' \<and>
   vies_checkVat faulty_world (str_upper (take 2 ''ie1234'')) (drop 2 ''ie1234'') = ViesFault \<and>
   fst (validate_vat_number faulty_world init_state ''ie1234'') = Inr False \<and>
   vies_checkVat sample_world (str_upper (take 2 ''ie1234'')) (drop 2 ''ie1234'') = ViesValid True \<and>
   fst (validate_vat_number sample_world init_state ''ie1234'') = Inr True"
  using validate_vat_number_fail_closed [of "''ie1234''" faulty_world init_state]
    validate_vat_number_fail_closed [of "''ie1234''" sample_world init_state]
  by (simp add: upper_ie faulty_world_def sample_world_def)

section \<open>Codes in lower case\<close>




end
